theory Spec2Isabelle
  imports Main
begin

section \<open>The edge handler of lambda-url-iam (src/lambda-edge/authEdge.js)\<close>

text \<open>
  The handler is the whole program: it checks a bearer token, signs the request again and
  forwards it to the origin. Everything it awaits is a call of a library or of the Node
  runtime (the parameter store client, the Cognito verifier, the SigV4 signer, the
  network behind axios, \<^verbatim>\<open>URL\<close>, \<^verbatim>\<open>Buffer\<close>, \<^verbatim>\<open>JSON\<close>). Those are parameters of
  the model, collected in the record \<open>platform\<close>; the handler's own control flow, its
  try blocks and the values it builds are translated line by line, and so are the defaults
  of axios that the handler leaves in place. Effects are explicit: the record
  \<open>process\<close> is the state of one warm Node process, and it records every call the handler
  makes to a collaborator and every line it logs.

  A JavaScript string is modelled by the bytes of its UTF-8 encoding, so \<open>length\<close> is
  \<^verbatim>\<open>Buffer.byteLength\<close>.
\<close>

subsection \<open>Data\<close>

text \<open>A rejected promise or a thrown exception is a value of \<open>error\<close>.\<close>

datatype error =
    TypeError string
  | InvalidURL string
  | ParameterStoreError string
  | VerificationError string
  | SigningError string
  | Timeout
  | NetworkError string
  | BadStatus nat

text \<open>The CloudFront request of the event: \<^verbatim>\<open>event.Records[0].cf.request\<close>. A header maps
  its lower-cased name to the list of its values (\<^verbatim>\<open>[{value: ...}, ...]\<close>);
  \<open>domainName\<close> is \<^verbatim>\<open>origin.custom.domainName\<close>.\<close>

record cf_body =
  data :: string
  encoding :: string

record cf_request =
  req_method :: string
  uri :: string
  querystring :: string
  headers :: "string \<rightharpoonup> string list"
  domainName :: string
  body :: "cf_body option"

record event =
  Records :: "cf_request list"

record proxy_response =
  status :: string
  statusDescription :: string
  response_body :: string

text \<open>What the caller of the async handler observes: the promise resolves with a response,
  or it rejects with the exception that escaped.\<close>

datatype outcome = Return proxy_response | Throw error

text \<open>The fields of a \<^verbatim>\<open>URL\<close> object that the handler reads.\<close>

record url =
  href :: string
  protocol :: string
  host :: string
  hostname :: string
  pathname :: string

record credentials =
  accessKeyId :: "string option"
  secretAccessKey :: "string option"
  sessionToken :: "string option"

text \<open>\<^verbatim>\<open>signV4Options\<close> (lines 73-83), with the \<^verbatim>\<open>body\<close> that
  \<^verbatim>\<open>signAndForwardRequest\<close> may add.\<close>

record signV4Options =
  opt_method :: string
  opt_hostname :: string
  opt_path :: string
  opt_protocol :: string
  opt_query :: string
  opt_headers :: "string \<rightharpoonup> string"
  opt_body :: "string option"

text \<open>The argument of the axios call (lines 109-114): the signed request spread into the
  object, then \<^verbatim>\<open>url\<close>, \<^verbatim>\<open>timeout\<close> and \<^verbatim>\<open>data\<close>.\<close>

record axios_config =
  signed :: signV4Options
  target_url :: string
  timeout_ms :: nat
  axios_data :: "string option"

record 'd http_response =
  resp_status :: nat
  resp_data :: 'd

text \<open>The collaborators. \<open>origin\<close> is the network and the origin together: given the
  request axios dispatches, it yields the response that ends the exchange (the last one,
  when axios followed redirects), of some status, or the transport fails.
  \<open>JSON_parses\<close> tells whether \<^verbatim>\<open>JSON.parse\<close> accepts a string, \<open>String_trim\<close> is
  \<^verbatim>\<open>String.prototype.trim\<close>, and \<open>JSON_stringify_string\<close> is \<^verbatim>\<open>JSON.stringify\<close> on a
  string.\<close>

record 'd platform =
  URL_new :: "string \<Rightarrow> error + url"
  ssm_send :: "string \<Rightarrow> error + string"
  cognito_verify :: "string \<Rightarrow> string \<Rightarrow> string option \<Rightarrow> error + unit"
  Buffer_base64_utf8 :: "string \<Rightarrow> string"
  sigv4_sign :: "credentials \<Rightarrow> signV4Options \<Rightarrow> error + signV4Options"
  origin :: "axios_config \<Rightarrow> error + 'd http_response"
  JSON_stringify :: "'d \<Rightarrow> string"
  JSON_parses :: "string \<Rightarrow> bool"
  String_trim :: "string \<Rightarrow> string"
  JSON_stringify_string :: "string \<Rightarrow> string"

text \<open>One warm process: the environment as it is now, the credentials the module-level
  \<^verbatim>\<open>sigv4\<close> object was built with, and the trace of the calls made so far:
  the parameters asked for, the requests given to the signer, the requests axios
  dispatched to the origin, and the lines logged.\<close>

record process =
  env :: "string \<rightharpoonup> string"
  sigv4_credentials :: credentials
  ssm_calls :: "string list"
  sign_calls :: "(credentials \<times> signV4Options) list"
  origin_calls :: "axios_config list"
  console :: "(string \<times> error) list"

subsection \<open>Module level (lines 7-31)\<close>

text \<open>The three variables are destructured from \<^verbatim>\<open>process.env\<close> when the module is
  loaded, and \<^verbatim>\<open>sigv4\<close> is constructed once, with those values.\<close>

definition read_credentials :: "(string \<rightharpoonup> string) \<Rightarrow> credentials" where
  "read_credentials e =
     \<lparr>accessKeyId = e ''AWS_ACCESS_KEY_ID'',
      secretAccessKey = e ''AWS_SECRET_ACCESS_KEY'',
      sessionToken = e ''AWS_SESSION_TOKEN''\<rparr>"

definition module_load :: "(string \<rightharpoonup> string) \<Rightarrow> process" where
  "module_load e =
     \<lparr>env = e, sigv4_credentials = read_credentials e, ssm_calls = [], sign_calls = [],
      origin_calls = [], console = []\<rparr>"

definition getParameter :: "'d platform \<Rightarrow> string \<Rightarrow> process \<Rightarrow> (error + string) \<times> process" where
  "getParameter P name p = (ssm_send P name, p\<lparr>ssm_calls := ssm_calls p @ [name]\<rparr>)"

subsection \<open>String helpers of the runtime\<close>

definition startsWith :: "string \<Rightarrow> string \<Rightarrow> bool" where
  "startsWith s pre = (take (length pre) s = pre)"

fun split :: "char \<Rightarrow> string \<Rightarrow> string list" where
  "split c [] = [[]]"
| "split c (x # xs) =
     (if x = c then [] # split c xs
      else (case split c xs of [] \<Rightarrow> [[x]] | w # ws \<Rightarrow> (x # w) # ws))"

fun index :: "'a list \<Rightarrow> nat \<Rightarrow> 'a option" where
  "index [] i = None"
| "index (x # xs) 0 = Some x"
| "index (x # xs) (Suc i) = index xs i"

fun toString :: "nat \<Rightarrow> string" where
  "toString n =
     (if n < 10 then [char_of (48 + n)]
      else toString (n div 10) @ [char_of (48 + n mod 10)])"

declare toString.simps [simp del]

subsection \<open>The three response shapes\<close>

definition forbidden :: proxy_response where
  "forbidden = \<lparr>status = ''403'', statusDescription = ''Forbidden'', response_body = ''Unauthorized''\<rparr>"

definition internal_server_error :: proxy_response where
  "internal_server_error =
     \<lparr>status = ''500'', statusDescription = ''Internal Server Error'',
      response_body = ''Internal Server Error''\<rparr>"

definition ok :: "string \<Rightarrow> proxy_response" where
  "ok b = \<lparr>status = ''200'', statusDescription = ''OK'', response_body = b\<rparr>"

subsection \<open>axios\<close>

text \<open>The call at lines 109-114 overrides none of the defaults of axios, so three of them
  bear on what the handler returns and on what the origin receives.

  The default \<^verbatim>\<open>transformRequest\<close> rewrites a string body when the request has a JSON
  content type (its \<^verbatim>\<open>Content-Type\<close> contains \<^verbatim>\<open>application/json\<close>; the handler
  writes the header under this name and the signer returns the headers it was given):
  a string that parses as JSON is sent trimmed, any other string is sent as the JSON
  string literal of it. The headers, \<^verbatim>\<open>Content-Length\<close> among them, stay as the
  handler set them.

  Redirects are followed; the response that ends the exchange is what \<open>origin\<close>
  yields.

  The default \<^verbatim>\<open>validateStatus\<close>, \<^verbatim>\<open>status >= 200 && status < 300\<close>, decides
  on that response: axios resolves its promise with it when the status is accepted, and
  rejects otherwise, as it does when the transport fails.\<close>

fun contains :: "string \<Rightarrow> string \<Rightarrow> bool" where
  "contains [] sub = (sub = [])"
| "contains (x # xs) sub = (startsWith (x # xs) sub \<or> contains xs sub)"

definition hasJSONContentType :: "(string \<rightharpoonup> string) \<Rightarrow> bool" where
  "hasJSONContentType hs =
     (case hs ''Content-Type'' of None \<Rightarrow> False | Some ct \<Rightarrow> contains ct ''application/json'')"

definition stringifySafely :: "'d platform \<Rightarrow> string \<Rightarrow> string" where
  "stringifySafely P rawValue =
     (if JSON_parses P rawValue then String_trim P rawValue
      else JSON_stringify_string P rawValue)"

definition transformRequest :: "'d platform \<Rightarrow> axios_config \<Rightarrow> axios_config" where
  "transformRequest P cfg =
     (case axios_data cfg of
        None \<Rightarrow> cfg
      | Some s \<Rightarrow>
          if hasJSONContentType (opt_headers (signed cfg))
          then cfg\<lparr>axios_data := Some (stringifySafely P s)\<rparr>
          else cfg)"

definition validateStatus :: "nat \<Rightarrow> bool" where
  "validateStatus s = (200 \<le> s \<and> s < 300)"

definition axios :: "'d platform \<Rightarrow> axios_config \<Rightarrow> error + 'd http_response" where
  "axios P cfg =
     (case origin P (transformRequest P cfg) of
        Inl e \<Rightarrow> Inl e
      | Inr r \<Rightarrow> if validateStatus (resp_status r) then Inr r else Inl (BadStatus (resp_status r)))"

subsection \<open>signAndForwardRequest (lines 97-121)\<close>

text \<open>The guard of line 98: \<^verbatim>\<open>cfRequest.body && cfRequest.body.data\<close>; the empty
  string is falsy.\<close>

definition carries_body :: "cf_request \<Rightarrow> bool" where
  "carries_body r = (case body r of None \<Rightarrow> False | Some b \<Rightarrow> data b \<noteq> [])"

text \<open>Lines 98-106. \<^verbatim>\<open>data\<close> is a string, so the \<^verbatim>\<open>typeof\<close> test of line 104
  keeps it as it is.\<close>

definition with_body :: "'d platform \<Rightarrow> cf_request \<Rightarrow> signV4Options \<Rightarrow> signV4Options" where
  "with_body P cfRequest signV4Options =
     (case body cfRequest of
        None \<Rightarrow> signV4Options
      | Some b \<Rightarrow>
          if data b = [] then signV4Options
          else
            let bd = (if encoding b = ''base64'' then Buffer_base64_utf8 P (data b) else data b)
            in signV4Options
                 \<lparr>opt_headers := (opt_headers signV4Options)(''Content-Length'' \<mapsto> toString (length bd)),
                  opt_body := Some bd\<rparr>)"

definition signAndForwardRequest ::
  "'d platform \<Rightarrow> cf_request \<Rightarrow> signV4Options \<Rightarrow> url \<Rightarrow> process
     \<Rightarrow> (error + proxy_response) \<times> process" where
  "signAndForwardRequest P cfRequest signV4Options apiUrl p =
     (let opts = with_body P cfRequest signV4Options;
          p1 = p\<lparr>sign_calls := sign_calls p @ [(sigv4_credentials p, opts)]\<rparr>
      in case sigv4_sign P (sigv4_credentials p) opts of
           Inl e \<Rightarrow> (Inl e, p1)
         | Inr sg \<Rightarrow>
             let cfg = \<lparr>signed = sg, target_url = href apiUrl, timeout_ms = 5000,
                        axios_data = opt_body opts\<rparr>;
                 p2 = p1\<lparr>origin_calls := origin_calls p1 @ [transformRequest P cfg]\<rparr>
             in case axios P cfg of
                  Inl e \<Rightarrow> (Inl e, p2)
                | Inr result \<Rightarrow> (Inr (ok (JSON_stringify P (resp_data result))), p2))"

subsection \<open>handler (lines 33-95)\<close>

text \<open>The body of the first try block (lines 52-61): two parameters, then the verifier.\<close>

definition verification ::
  "'d platform \<Rightarrow> string option \<Rightarrow> process \<Rightarrow> (error + unit) \<times> process" where
  "verification P token p =
     (case getParameter P ''/publisher/user-pool-id'' p of
        (Inl e, p1) \<Rightarrow> (Inl e, p1)
      | (Inr COGNITO_USER_POOL_ID, p1) \<Rightarrow>
          (case getParameter P ''/publisher/user-pool-client-id'' p1 of
             (Inl e, p2) \<Rightarrow> (Inl e, p2)
           | (Inr COGNITO_CLIENT_ID, p2) \<Rightarrow>
               (cognito_verify P COGNITO_USER_POOL_ID COGNITO_CLIENT_ID token, p2)))"

definition log_error :: "string \<Rightarrow> error \<Rightarrow> process \<Rightarrow> process" where
  "log_error msg err p = p\<lparr>console := console p @ [(msg, err)]\<rparr>"

text \<open>Lines 71-94, reached once the token is verified. The URL and the options (lines 73-83,
  \<open>signV4Options_of\<close>, whose last argument is \<^verbatim>\<open>headers['content-type'][0].value\<close>)
  are built outside the second try block; only \<^verbatim>\<open>signAndForwardRequest\<close> is inside it.\<close>

definition signV4Options_of :: "cf_request \<Rightarrow> url \<Rightarrow> string \<Rightarrow> signV4Options" where
  "signV4Options_of cfRequest apiUrl content_type =
     \<lparr>opt_method = req_method cfRequest,
      opt_hostname = host apiUrl,
      opt_path = pathname apiUrl @
        (if querystring cfRequest \<noteq> [] then ''?'' @ querystring cfRequest else []),
      opt_protocol = protocol apiUrl,
      opt_query = querystring cfRequest,
      opt_headers = [''Content-Type'' \<mapsto> content_type, ''host'' \<mapsto> hostname apiUrl],
      opt_body = None\<rparr>"

definition forward :: "'d platform \<Rightarrow> cf_request \<Rightarrow> process \<Rightarrow> outcome \<times> process" where
  "forward P cfRequest p =
     (case URL_new P (''https://'' @ domainName cfRequest @ uri cfRequest) of
        Inl e \<Rightarrow> (Throw e, p)
      | Inr apiUrl \<Rightarrow>
          (case headers cfRequest ''content-type'' of
             None \<Rightarrow> (Throw (TypeError ''content-type''), p)
           | Some [] \<Rightarrow> (Throw (TypeError ''content-type''), p)
           | Some (ct # _) \<Rightarrow>
               (case signAndForwardRequest P cfRequest (signV4Options_of cfRequest apiUrl ct)
                       apiUrl p of
                  (Inl err, p2) \<Rightarrow>
                    (Return internal_server_error, log_error ''An error occurred'' err p2)
                | (Inr r, p2) \<Rightarrow> (Return r, p2))))"

text \<open>The negation of the test of line 40: the header is there, it has a first value,
  and the value starts with \<^verbatim>\<open>'Bearer '\<close>.\<close>

definition bearer_header :: "cf_request \<Rightarrow> bool" where
  "bearer_header r =
     (case headers r ''authorization'' of
        None \<Rightarrow> False
      | Some [] \<Rightarrow> False
      | Some (v # _) \<Rightarrow> startsWith v ''Bearer '')"

text \<open>Line 40 rejects a header that is missing, has no first value, or whose first value has
  no \<^verbatim>\<open>'Bearer '\<close> prefix. Line 48 takes the token: the second piece of the value split
  at spaces.\<close>

definition handler :: "'d platform \<Rightarrow> event \<Rightarrow> process \<Rightarrow> outcome \<times> process" where
  "handler P ev p =
     (case Records ev of
        [] \<Rightarrow> (Throw (TypeError ''Records[0]''), p)
      | cfRequest # _ \<Rightarrow>
          (case headers cfRequest ''authorization'' of
             None \<Rightarrow> (Return forbidden, p)
           | Some [] \<Rightarrow> (Return forbidden, p)
           | Some (v # _) \<Rightarrow>
               (if \<not> startsWith v ''Bearer '' then (Return forbidden, p)
                else
                  (case verification P (index (split CHR '' '' v) 1) p of
                     (Inl err, p1) \<Rightarrow>
                       (Return forbidden, log_error ''Token verification failed:'' err p1)
                   | (Inr _, p1) \<Rightarrow> forward P cfRequest p1))))"

text \<open>An event whose request passes the test of line 40, and the parameters one
  verification asks the store for (lines 52-53): the second only when the first fetch
  succeeded.\<close>

definition presents_bearer :: "event \<Rightarrow> bool" where
  "presents_bearer ev = (case Records ev of [] \<Rightarrow> False | r # _ \<Rightarrow> bearer_header r)"


subsection \<open>A warm process\<close>

text \<open>The runtime invokes the handler again and again in one process, and it may change
  the environment variables between two invocations.\<close>

datatype 'e step = Invoke 'e | SetEnv "string \<rightharpoonup> string"

fun run :: "'d platform \<Rightarrow> event step list \<Rightarrow> process \<Rightarrow> process" where
  "run P [] p = p"
| "run P (Invoke ev # ss) p = run P ss (snd (handler P ev p))"
| "run P (SetEnv e # ss) p = run P ss (p\<lparr>env := e\<rparr>)"

subsection \<open>Base64\<close>

text \<open>A reference codec (RFC 4648) for the \<^verbatim>\<open>Buffer\<close> parameter. The encoder writes
  the standard alphabet; the decoder also reads \<open>-\<close> and \<open>_\<close> of the URL-safe alphabet,
  skips every other character and stops at the first padding character. It returns the
  decoded bytes, which is the string \<^verbatim>\<open>toString('utf-8')\<close> returns when they are
  well-formed UTF-8.\<close>

definition b64_alphabet :: string where
  "b64_alphabet = ''ABCDEFGHIJKLMNOPQRSTUVWXYZabcdefghijklmnopqrstuvwxyz0123456789+/''"

fun position :: "'a \<Rightarrow> 'a list \<Rightarrow> nat option" where
  "position x [] = None"
| "position x (y # ys) = (if x = y then Some 0 else map_option Suc (position x ys))"

definition b64_char :: "nat \<Rightarrow> char" where
  "b64_char n = b64_alphabet ! (n mod 64)"

definition b64_value :: "char \<Rightarrow> nat option" where
  "b64_value c =
     (if c = CHR ''-'' then Some 62 else if c = CHR ''_'' then Some 63
      else position c b64_alphabet)"

fun sextets_to_bytes :: "nat list \<Rightarrow> nat list" where
  "sextets_to_bytes (a # b # c # d # rest) =
     [a * 4 + b div 16, (b mod 16) * 16 + c div 4, (c mod 4) * 64 + d] @ sextets_to_bytes rest"
| "sextets_to_bytes [a, b, c] = [a * 4 + b div 16, (b mod 16) * 16 + c div 4]"
| "sextets_to_bytes [a, b] = [a * 4 + b div 16]"
| "sextets_to_bytes _ = []"

definition base64_decode :: "string \<Rightarrow> string" where
  "base64_decode s =
     map char_of (sextets_to_bytes (List.map_filter b64_value (takeWhile (\<lambda>c. c \<noteq> CHR ''='') s)))"

fun bytes_to_base64 :: "nat list \<Rightarrow> string" where
  "bytes_to_base64 (a # b # c # rest) =
     [b64_char (a div 4), b64_char ((a mod 4) * 16 + b div 16),
      b64_char ((b mod 16) * 4 + c div 64), b64_char (c mod 64)] @ bytes_to_base64 rest"
| "bytes_to_base64 [a, b] =
     [b64_char (a div 4), b64_char ((a mod 4) * 16 + b div 16), b64_char ((b mod 16) * 4),
      CHR ''='']"
| "bytes_to_base64 [a] = [b64_char (a div 4), b64_char ((a mod 4) * 16), CHR ''='', CHR ''='']"
| "bytes_to_base64 [] = []"

definition base64_encode :: "string \<Rightarrow> string" where
  "base64_encode s = bytes_to_base64 (map of_char s)"

subsection \<open>A concrete platform\<close>

text \<open>An instance of the collaborators, for evaluating the handler on concrete events. Its
  functions stand in for the runtime's on the inputs of the examples only:
  \<open>URL_plain\<close> reads \<^verbatim>\<open>https://host/path\<close> and returns what the WHATWG parser returns
  on a lower-case host name without port and a path that needs no escaping;
  \<open>trim_ascii\<close> removes ASCII white space at both ends; \<open>parses_example\<close> knows one JSON
  text, the array \<^verbatim>\<open>[1,2]\<close> with white space around it; \<open>quote\<close> writes a string
  that needs no escaping as a JSON string literal.\<close>

definition URL_plain :: "string \<Rightarrow> error + url" where
  "URL_plain s =
     (let rest = drop 8 s;
          h = takeWhile (\<lambda>c. c \<noteq> CHR ''/'') rest;
          pth = dropWhile (\<lambda>c. c \<noteq> CHR ''/'') rest
      in if \<not> startsWith s ''https://'' \<or> h = [] then Inl (InvalidURL s)
         else Inr \<lparr>href = ''https://'' @ h @ (if pth = [] then ''/'' else pth),
                   protocol = ''https:'', host = h, hostname = h,
                   pathname = (if pth = [] then ''/'' else pth)\<rparr>)"

definition store :: "string \<Rightarrow> error + string" where
  "store name =
     (if name = ''/publisher/user-pool-id'' then Inr ''eu-central-1_aBcDeF''
      else if name = ''/publisher/user-pool-client-id'' then Inr ''client1''
      else Inl (ParameterStoreError ''ParameterNotFound''))"

definition verifier :: "string \<Rightarrow> string \<Rightarrow> string option \<Rightarrow> error + unit" where
  "verifier pool client token =
     (if pool = ''eu-central-1_aBcDeF'' \<and> client = ''client1'' \<and> token = Some ''good''
      then Inr () else Inl (VerificationError ''invalid token''))"

definition signer :: "credentials \<Rightarrow> signV4Options \<Rightarrow> error + signV4Options" where
  "signer c opts =
     (case (accessKeyId c, secretAccessKey c) of
        (Some k, Some s) \<Rightarrow>
          Inr (opts\<lparr>opt_headers := (opt_headers opts)(''authorization'' \<mapsto> ''AWS4-HMAC-SHA256 '' @ k)\<rparr>)
      | _ \<Rightarrow> Inl (SigningError ''no credentials''))"

definition ascii_space :: "char \<Rightarrow> bool" where
  "ascii_space c = (c \<in> set [CHR '' '', CHR 0x09, CHR 0x0A, CHR 0x0B, CHR 0x0C, CHR 0x0D])"

definition trim_ascii :: "string \<Rightarrow> string" where
  "trim_ascii s = rev (dropWhile ascii_space (rev (dropWhile ascii_space s)))"

definition parses_example :: "string \<Rightarrow> bool" where
  "parses_example s = (trim_ascii s = ''[1,2]'')"

definition quote :: "string \<Rightarrow> string" where
  "quote s = CHR 0x22 # s @ [CHR 0x22]"

definition answering :: "nat \<Rightarrow> nat platform" where
  "answering st =
     \<lparr>URL_new = URL_plain, ssm_send = store, cognito_verify = verifier,
      Buffer_base64_utf8 = base64_decode, sigv4_sign = signer,
      origin = (\<lambda>cfg. Inr \<lparr>resp_status = st, resp_data = 42\<rparr>),
      JSON_stringify = toString,
      JSON_parses = parses_example, String_trim = trim_ascii, JSON_stringify_string = quote\<rparr>"

definition unreachable :: "nat platform" where
  "unreachable = (answering 200)\<lparr>origin := (\<lambda>cfg. Inl Timeout)\<rparr>"

definition env1 :: "string \<rightharpoonup> string" where
  "env1 = [''AWS_ACCESS_KEY_ID'' \<mapsto> ''AKIA1'', ''AWS_SECRET_ACCESS_KEY'' \<mapsto> ''secret1'',
           ''AWS_SESSION_TOKEN'' \<mapsto> ''session1'']"

definition env2 :: "string \<rightharpoonup> string" where
  "env2 = [''AWS_ACCESS_KEY_ID'' \<mapsto> ''AKIA2'', ''AWS_SECRET_ACCESS_KEY'' \<mapsto> ''secret2'',
           ''AWS_SESSION_TOKEN'' \<mapsto> ''session2'']"

text \<open>A POST with the body \<^verbatim>\<open>[1,2]\<close> in base64, the same POST with a line feed after
  the array, a GET without body and without \<open>content-type\<close> header, a request without
  \<open>authorization\<close> header, and one whose token the verifier refuses.\<close>

definition post_request :: cf_request where
  "post_request =
     \<lparr>req_method = ''POST'', uri = ''/items'', querystring = ''a=1'',
      headers = [''authorization'' \<mapsto> [''Bearer good''],
                 ''content-type'' \<mapsto> [''application/json'']],
      domainName = ''abc.lambda-url.eu-central-1.on.aws'',
      body = Some \<lparr>data = ''WzEsMl0='', encoding = ''base64''\<rparr>\<rparr>"

definition newline_request :: cf_request where
  "newline_request = post_request\<lparr>body := Some \<lparr>data = ''WzEsMl0K'', encoding = ''base64''\<rparr>\<rparr>"

definition get_request :: cf_request where
  "get_request =
     \<lparr>req_method = ''GET'', uri = ''/items'', querystring = [],
      headers = [''authorization'' \<mapsto> [''Bearer good'']],
      domainName = ''abc.lambda-url.eu-central-1.on.aws'',
      body = Some \<lparr>data = [], encoding = ''base64''\<rparr>\<rparr>"

definition anonymous_request :: cf_request where
  "anonymous_request = post_request\<lparr>headers := [''content-type'' \<mapsto> [''application/json'']]\<rparr>"

definition bad_token_request :: cf_request where
  "bad_token_request =
     post_request\<lparr>headers := [''authorization'' \<mapsto> [''Bearer expired''],
                               ''content-type'' \<mapsto> [''application/json'']]\<rparr>"

section \<open>What one invocation does\<close>

subsection \<open>The steps of the handler\<close>

text \<open>Verification only fetches parameters; \<open>forward\<close> signs at most once and calls
  the origin at most once, with the credentials of the process.\<close>

lemma transformRequest_frame:
  "signed (transformRequest P cfg) = signed cfg"
  "target_url (transformRequest P cfg) = target_url cfg"
  "timeout_ms (transformRequest P cfg) = timeout_ms cfg"
  by (simp_all add: transformRequest_def split: option.splits)

lemma verification_frame:
  "sign_calls (snd (verification P t p)) = sign_calls p"
  "origin_calls (snd (verification P t p)) = origin_calls p"
  "console (snd (verification P t p)) = console p"
  "sigv4_credentials (snd (verification P t p)) = sigv4_credentials p"
  "env (snd (verification P t p)) = env p"
  by (auto simp: verification_def getParameter_def split: sum.splits)

lemma verification_result:
  "fst (verification P t p) =
     (case ssm_send P ''/publisher/user-pool-id'' of
        Inl e \<Rightarrow> Inl e
      | Inr pool \<Rightarrow>
          (case ssm_send P ''/publisher/user-pool-client-id'' of
             Inl e \<Rightarrow> Inl e
           | Inr client \<Rightarrow> cognito_verify P pool client t))"
  by (auto simp: verification_def getParameter_def split: sum.splits)


lemma handler_bearer:
  assumes "Records ev = r # rs" and "headers r ''authorization'' = Some (v # vs)"
    and "startsWith v ''Bearer ''"
  shows "handler P ev p =
     (case verification P (index (split CHR '' '' v) 1) p of
        (Inl err, p1) \<Rightarrow> (Return forbidden, log_error ''Token verification failed:'' err p1)
      | (Inr u, p1) \<Rightarrow> forward P r p1)"
  using assms by (simp add: handler_def)

lemma forward_frame:
  "console (snd (forward P r p)) = console p \<or> (\<exists>e. console (snd (forward P r p)) = console p @ [(''An error occurred'', e)])"
  "sigv4_credentials (snd (forward P r p)) = sigv4_credentials p"
  "ssm_calls (snd (forward P r p)) = ssm_calls p"
  "env (snd (forward P r p)) = env p"
  by (auto simp: forward_def signAndForwardRequest_def log_error_def Let_def split: sum.splits option.splits list.splits)

lemma forward_signs:
  assumes "sign_calls (snd (forward P r p)) = sign_calls p @ [(c, opts)]"
  shows "\<exists>u ct cts. URL_new P (''https://'' @ domainName r @ uri r) = Inr u
           \<and> headers r ''content-type'' = Some (ct # cts)
           \<and> c = sigv4_credentials p
           \<and> opts = with_body P r (signV4Options_of r u ct)"
  using assms
  by (auto simp: forward_def signAndForwardRequest_def log_error_def Let_def split: sum.splits option.splits list.splits)

lemma forward_dispatches:
  assumes "origin_calls (snd (forward P r p)) = origin_calls p @ [cfg]"
  shows "\<exists>u ct cts sg. URL_new P (''https://'' @ domainName r @ uri r) = Inr u
           \<and> headers r ''content-type'' = Some (ct # cts)
           \<and> sigv4_sign P (sigv4_credentials p) (with_body P r (signV4Options_of r u ct)) = Inr sg
           \<and> cfg = transformRequest P
                    \<lparr>signed = sg, target_url = href u, timeout_ms = 5000,
                     axios_data = opt_body (with_body P r (signV4Options_of r u ct))\<rparr>
           \<and> sign_calls (snd (forward P r p)) =
               sign_calls p @ [(sigv4_credentials p, with_body P r (signV4Options_of r u ct))]
           \<and> fst (forward P r p) =
               (case origin P cfg of
                  Inl e \<Rightarrow> Return internal_server_error
                | Inr result \<Rightarrow>
                    if validateStatus (resp_status result)
                    then Return (ok (JSON_stringify P (resp_data result)))
                    else Return internal_server_error)
           \<and> console (snd (forward P r p)) =
               (case origin P cfg of
                  Inl e \<Rightarrow> console p @ [(''An error occurred'', e)]
                | Inr result \<Rightarrow>
                    if validateStatus (resp_status result) then console p
                    else console p @ [(''An error occurred'', BadStatus (resp_status result))])"
  using assms
  by (auto simp: forward_def signAndForwardRequest_def axios_def log_error_def Let_def
      split: sum.splits option.splits list.splits)


lemma handler_no_records:
  "Records ev = [] \<Longrightarrow> handler P ev p = (Throw (TypeError ''Records[0]''), p)"
  by (simp add: handler_def)

lemma handler_rejected:
  assumes "Records ev = r # rs" and "\<not> bearer_header r"
  shows "handler P ev p = (Return forbidden, p)"
  using assms by (auto simp: handler_def bearer_header_def split: option.splits list.splits)

lemma bearer_headerD:
  "bearer_header r \<Longrightarrow> \<exists>v vs. headers r ''authorization'' = Some (v # vs) \<and> startsWith v ''Bearer ''"
  by (auto simp: bearer_header_def split: option.splits list.splits)

lemma handler_frame:
  "sigv4_credentials (snd (handler P ev p)) = sigv4_credentials p"
  "env (snd (handler P ev p)) = env p"
proof -
  have "sigv4_credentials (snd (handler P ev p)) = sigv4_credentials p \<and> env (snd (handler P ev p)) = env p"
  proof (cases "Records ev")
    case Nil
    then show ?thesis by (simp add: handler_no_records)
  next
    case (Cons r rs)
    show ?thesis
    proof (cases "bearer_header r")
      case False
      with Cons show ?thesis by (simp add: handler_rejected)
    next
      case True
      then obtain v vs where h: "headers r ''authorization'' = Some (v # vs)" "startsWith v ''Bearer ''"
        using bearer_headerD by blast
      obtain res p1 where v: "verification P (index (split CHR '' '' v) 1) p = (res, p1)"
        by (cases "verification P (index (split CHR '' '' v) 1) p")
      have p1: "sigv4_credentials p1 = sigv4_credentials p" "env p1 = env p"
        using verification_frame(4,5) [of P "index (split CHR '' '' v) 1" p] v by simp_all
      show ?thesis
        using handler_bearer [OF Cons h, of P p] v p1 forward_frame(2,4) [of P r p1]
        by (cases res) (simp_all add: log_error_def)
    qed
  qed
  then show "sigv4_credentials (snd (handler P ev p)) = sigv4_credentials p"
    and "env (snd (handler P ev p)) = env p" by simp_all
qed

lemma forward_sign_calls:
  "sign_calls (snd (forward P r p)) = sign_calls p
   \<or> (\<exists>opts. sign_calls (snd (forward P r p)) = sign_calls p @ [(sigv4_credentials p, opts)])"
  by (auto simp: forward_def signAndForwardRequest_def log_error_def Let_def split: sum.splits option.splits list.splits)

lemma forward_origin_calls:
  "origin_calls (snd (forward P r p)) = origin_calls p
   \<or> (\<exists>cfg. origin_calls (snd (forward P r p)) = origin_calls p @ [cfg])"
  by (auto simp: forward_def signAndForwardRequest_def log_error_def Let_def split: sum.splits option.splits list.splits)

text \<open>An invocation reaches \<open>forward\<close> or leaves the signing and origin traces alone.\<close>

lemma handler_forward_or_not:
  "(\<exists>r rs v vs p1. Records ev = r # rs \<and> headers r ''authorization'' = Some (v # vs)
        \<and> startsWith v ''Bearer ''
        \<and> verification P (index (split CHR '' '' v) 1) p = (Inr (), p1)
        \<and> handler P ev p = forward P r p1)
   \<or> (sign_calls (snd (handler P ev p)) = sign_calls p
        \<and> origin_calls (snd (handler P ev p)) = origin_calls p)"
proof (cases "Records ev")
  case Nil
  then show ?thesis by (simp add: handler_no_records)
next
  case (Cons r rs)
  show ?thesis
  proof (cases "bearer_header r")
    case False
    with Cons show ?thesis by (simp add: handler_rejected)
  next
    case True
    then obtain v vs where h: "headers r ''authorization'' = Some (v # vs)" "startsWith v ''Bearer ''"
      using bearer_headerD by blast
    obtain res p1 where v: "verification P (index (split CHR '' '' v) 1) p = (res, p1)"
      by (cases "verification P (index (split CHR '' '' v) 1) p")
    have p1: "sign_calls p1 = sign_calls p" "origin_calls p1 = origin_calls p"
      using verification_frame(1,2) [of P "index (split CHR '' '' v) 1" p] v by simp_all
    show ?thesis
    proof (cases res)
      case (Inl e)
      then show ?thesis
        using handler_bearer [OF Cons h, of P p] v p1 by (simp add: log_error_def)
    next
      case (Inr u)
      then show ?thesis
        using handler_bearer [OF Cons h, of P p] v Cons h by auto
    qed
  qed
qed

lemma handler_sign_calls:
  "sign_calls (snd (handler P ev p)) = sign_calls p
   \<or> (\<exists>opts. sign_calls (snd (handler P ev p)) = sign_calls p @ [(sigv4_credentials p, opts)])"
proof -
  from handler_forward_or_not [of ev P p] show ?thesis
  proof
    assume "\<exists>r rs v vs p1. Records ev = r # rs \<and> headers r ''authorization'' = Some (v # vs)
        \<and> startsWith v ''Bearer ''
        \<and> verification P (index (split CHR '' '' v) 1) p = (Inr (), p1)
        \<and> handler P ev p = forward P r p1"
    then obtain r v p1 where v: "verification P (index (split CHR '' '' v) 1) p = (Inr (), p1)"
      and f: "handler P ev p = forward P r p1" by blast
    have "sign_calls p1 = sign_calls p" "sigv4_credentials p1 = sigv4_credentials p"
      using verification_frame(1,4) [of P "index (split CHR '' '' v) 1" p] v by simp_all
    then show ?thesis using forward_sign_calls [of P r p1] f by simp
  next
    assume "sign_calls (snd (handler P ev p)) = sign_calls p
        \<and> origin_calls (snd (handler P ev p)) = origin_calls p"
    then show ?thesis by simp
  qed
qed

lemma handler_signs:
  assumes "Records ev = r # rs"
    and "sign_calls (snd (handler P ev p)) = sign_calls p @ [(c, opts)]"
  shows "\<exists>u ct cts. URL_new P (''https://'' @ domainName r @ uri r) = Inr u
           \<and> headers r ''content-type'' = Some (ct # cts)
           \<and> c = sigv4_credentials p
           \<and> opts = with_body P r (signV4Options_of r u ct)"
proof -
  from handler_forward_or_not [of ev P p] assms
  obtain v p1 where v: "verification P (index (split CHR '' '' v) 1) p = (Inr (), p1)"
    and f: "handler P ev p = forward P r p1" by auto
  have "sign_calls p1 = sign_calls p" "sigv4_credentials p1 = sigv4_credentials p"
    using verification_frame(1,4) [of P "index (split CHR '' '' v) 1" p] v by simp_all
  then show ?thesis using forward_signs [of P r p1 c opts] assms(2) f by simp
qed

lemma handler_dispatches:
  assumes "origin_calls (snd (handler P ev p)) = origin_calls p @ [cfg]"
  shows "\<exists>r rs u ct cts sg. Records ev = r # rs
           \<and> URL_new P (''https://'' @ domainName r @ uri r) = Inr u
           \<and> headers r ''content-type'' = Some (ct # cts)
           \<and> sigv4_sign P (sigv4_credentials p) (with_body P r (signV4Options_of r u ct)) = Inr sg
           \<and> cfg = transformRequest P
                    \<lparr>signed = sg, target_url = href u, timeout_ms = 5000,
                     axios_data = opt_body (with_body P r (signV4Options_of r u ct))\<rparr>
           \<and> sign_calls (snd (handler P ev p)) =
               sign_calls p @ [(sigv4_credentials p, with_body P r (signV4Options_of r u ct))]
           \<and> fst (handler P ev p) =
               (case origin P cfg of
                  Inl e \<Rightarrow> Return internal_server_error
                | Inr result \<Rightarrow>
                    if validateStatus (resp_status result)
                    then Return (ok (JSON_stringify P (resp_data result)))
                    else Return internal_server_error)
           \<and> console (snd (handler P ev p)) =
               (case origin P cfg of
                  Inl e \<Rightarrow> console p @ [(''An error occurred'', e)]
                | Inr result \<Rightarrow>
                    if validateStatus (resp_status result) then console p
                    else console p @ [(''An error occurred'', BadStatus (resp_status result))])"
proof -
  from handler_forward_or_not [of ev P p] assms
  obtain r rs v p1 where r: "Records ev = r # rs"
    and v: "verification P (index (split CHR '' '' v) 1) p = (Inr (), p1)"
    and f: "handler P ev p = forward P r p1" by auto
  have p1: "sign_calls p1 = sign_calls p" "sigv4_credentials p1 = sigv4_credentials p"
    "origin_calls p1 = origin_calls p" "console p1 = console p"
    using verification_frame [of P "index (split CHR '' '' v) 1" p] v by simp_all
  from assms f p1 have "origin_calls (snd (forward P r p1)) = origin_calls p1 @ [cfg]" by simp
  from forward_dispatches [OF this] show ?thesis using r f p1 by (auto split: sum.splits)
qed

subsection \<open>Before the origin is called\<close>

text \<open>The origin is called only for a request with a well-formed Bearer header whose token
  the verifier accepted, after both parameters were fetched.\<close>

lemma origin_only_after_verification:
  assumes "origin_calls (snd (handler P ev p)) \<noteq> origin_calls p"
  shows "\<exists>r rs v vs pool client.
           Records ev = r # rs
           \<and> headers r ''authorization'' = Some (v # vs)
           \<and> startsWith v ''Bearer ''
           \<and> ssm_send P ''/publisher/user-pool-id'' = Inr pool
           \<and> ssm_send P ''/publisher/user-pool-client-id'' = Inr client
           \<and> cognito_verify P pool client (index (split CHR '' '' v) 1) = Inr ()"
proof -
  from handler_forward_or_not [of ev P p] assms
  obtain r rs v vs p1 where r: "Records ev = r # rs"
    and h: "headers r ''authorization'' = Some (v # vs)" "startsWith v ''Bearer ''"
    and v: "verification P (index (split CHR '' '' v) 1) p = (Inr (), p1)"
    by auto
  from v have "fst (verification P (index (split CHR '' '' v) 1) p) = Inr ()" by simp
  then obtain pool client where "ssm_send P ''/publisher/user-pool-id'' = Inr pool"
    "ssm_send P ''/publisher/user-pool-client-id'' = Inr client"
    "cognito_verify P pool client (index (split CHR '' '' v) 1) = Inr ()"
    by (auto simp: verification_result split: sum.splits)
  with r h show ?thesis by blast
qed

text \<open>The token of line 48 is the text between the prefix and the next space.\<close>

lemma split_first: "\<exists>ws. split c t = takeWhile (\<lambda>x. x \<noteq> c) t # ws"
  by (induction t) auto

lemma bearer_token:
  "index (split CHR '' '' (''Bearer '' @ t)) 1 = Some (takeWhile (\<lambda>x. x \<noteq> CHR '' '') t)"
proof -
  obtain ws where "split CHR '' '' t = takeWhile (\<lambda>x. x \<noteq> CHR '' '') t # ws"
    using split_first by blast
  then show ?thesis by simp
qed

text \<open>The URL of a dispatch is the \<open>href\<close> of the URL built from the domain name and
  \<open>uri\<close>; the query string of the request has no part in it.\<close>

lemma dispatch_target:
  assumes "Records ev = r # rs"
    and "origin_calls (snd (handler P ev p)) = origin_calls p @ [cfg]"
  shows "\<exists>u. URL_new P (''https://'' @ domainName r @ uri r) = Inr u \<and> target_url cfg = href u"
  using handler_dispatches [OF assms(2)] assms(1) by (auto simp: transformRequest_frame)

subsection \<open>The parameter store and the signer across invocations\<close>


lemma handler_ssm_calls_rejected:
  assumes "\<not> presents_bearer ev"
  shows "ssm_calls (snd (handler P ev p)) = ssm_calls p"
proof (cases "Records ev")
  case Nil
  then show ?thesis by (simp add: handler_no_records)
next
  case (Cons r rs)
  with assms have "\<not> bearer_header r" by (simp add: presents_bearer_def)
  with Cons show ?thesis by (simp add: handler_rejected)
qed

lemma run_credentials: "sigv4_credentials (run P ss p) = sigv4_credentials p"
proof (induction ss arbitrary: p)
  case Nil
  show ?case by simp
next
  case (Cons s ss)
  show ?case by (cases s) (simp_all add: Cons.IH handler_frame)
qed

lemma run_sign_calls:
  assumes "\<forall>call \<in> set (sign_calls p). fst call = sigv4_credentials p"
  shows "\<forall>call \<in> set (sign_calls (run P ss p)). fst call = sigv4_credentials p"
  using assms
proof (induction ss arbitrary: p)
  case Nil
  then show ?case by simp
next
  case (Cons s ss)
  show ?case
  proof (cases s)
    case (Invoke ev)
    let ?q = "snd (handler P ev p)"
    have q: "sigv4_credentials ?q = sigv4_credentials p" by (rule handler_frame)
    have "\<forall>call \<in> set (sign_calls ?q). fst call = sigv4_credentials ?q"
      using handler_sign_calls [of P ev p] Cons.prems q by auto
    from Cons.IH [OF this] show ?thesis using Invoke q by simp
  next
    case (SetEnv e)
    have "\<forall>call \<in> set (sign_calls (p\<lparr>env := e\<rparr>)). fst call = sigv4_credentials (p\<lparr>env := e\<rparr>)"
      using Cons.prems by simp
    from Cons.IH [OF this] show ?thesis using SetEnv by simp
  qed
qed

subsection \<open>The body of the signed request\<close>

lemma with_body_carried:
  assumes "body r = Some b" and "data b \<noteq> []"
  shows "opt_body (with_body P r opts) =
           Some (if encoding b = ''base64'' then Buffer_base64_utf8 P (data b) else data b)"
    and "opt_headers (with_body P r opts) =
           (opt_headers opts)(''Content-Length'' \<mapsto>
              toString (length (if encoding b = ''base64'' then Buffer_base64_utf8 P (data b) else data b)))"
  using assms by (simp_all add: with_body_def Let_def)

lemma with_body_none:
  assumes "\<not> carries_body r"
  shows "with_body P r opts = opts"
  using assms by (auto simp: with_body_def carries_body_def split: option.splits)

lemma with_body_frame:
  "opt_method (with_body P r opts) = opt_method opts"
  "opt_hostname (with_body P r opts) = opt_hostname opts"
  "opt_path (with_body P r opts) = opt_path opts"
  "opt_protocol (with_body P r opts) = opt_protocol opts"
  "opt_query (with_body P r opts) = opt_query opts"
  by (simp_all add: with_body_def Let_def split: option.splits)

lemma with_body_headers: "with_body P (r\<lparr>headers := hs\<rparr>) opts = with_body P r opts"
  by (simp add: with_body_def)

lemma signV4Options_of_headers: "signV4Options_of (r\<lparr>headers := hs\<rparr>) u ct = signV4Options_of r u ct"
  by (simp add: signV4Options_of_def)

subsection \<open>The reference codec decodes what it encodes\<close>

lemma position_nth:
  "distinct xs \<Longrightarrow> n < length xs \<Longrightarrow> position (xs ! n) xs = Some n"
proof (induction xs arbitrary: n)
  case Nil
  then show ?case by simp
next
  case (Cons x xs)
  show ?case
  proof (cases n)
    case 0
    then show ?thesis by simp
  next
    case (Suc m)
    with Cons.prems have "xs ! m \<in> set xs" "x \<notin> set xs" by simp_all
    then have "xs ! m \<noteq> x" by blast
    with Suc Cons show ?thesis by simp
  qed
qed

lemma length_b64_alphabet: "length b64_alphabet = 64"
  by (simp add: b64_alphabet_def)

lemma distinct_b64_alphabet: "distinct b64_alphabet"
  by (simp add: b64_alphabet_def)

lemma padding_not_in_alphabet: "CHR ''='' \<notin> set b64_alphabet"
  by (simp add: b64_alphabet_def)

lemma url_safe_not_in_alphabet: "CHR ''-'' \<notin> set b64_alphabet" "CHR ''_'' \<notin> set b64_alphabet"
  by (simp_all add: b64_alphabet_def)

lemma b64_value_char: "n < 64 \<Longrightarrow> b64_value (b64_char n) = Some n"
proof -
  assume n: "n < 64"
  then have "b64_alphabet ! n \<in> set b64_alphabet" by (simp add: length_b64_alphabet)
  with url_safe_not_in_alphabet
  have "b64_alphabet ! n \<noteq> CHR ''-''" "b64_alphabet ! n \<noteq> CHR ''_''" by auto
  with n show ?thesis
    by (simp add: b64_value_def b64_char_def position_nth distinct_b64_alphabet length_b64_alphabet)
qed

lemma b64_char_not_padding: "n < 64 \<Longrightarrow> b64_char n \<noteq> CHR ''=''"
proof -
  assume "n < 64"
  then have "b64_alphabet ! n \<in> set b64_alphabet" by (simp add: length_b64_alphabet)
  with padding_not_in_alphabet \<open>n < 64\<close> show ?thesis by (auto simp: b64_char_def)
qed

lemma split_join:
  fixes x y n :: nat
  assumes "y < n"
  shows "(x * n + y) div n = x" "(x * n + y) mod n = y"
  using assms by simp_all

lemma div_bound: "(a::nat) < 256 \<Longrightarrow> a div 4 < 64" "(a::nat) < 256 \<Longrightarrow> a div 16 < 16"
  "(a::nat) < 256 \<Longrightarrow> a div 64 < 4"
  by (simp_all add: less_mult_imp_div_less)

lemma small_sum:
  fixes x y :: nat
  shows "x < 4 \<Longrightarrow> y < 16 \<Longrightarrow> x * 16 + y < 64" "x < 16 \<Longrightarrow> y < 4 \<Longrightarrow> x * 4 + y < 64"
  by simp_all

lemma sextet_bounds:
  fixes a b c :: nat
  assumes "a < 256" "b < 256" "c < 256"
  shows "a div 4 < 64" "(a mod 4) * 16 + b div 16 < 64" "(b mod 16) * 4 + c div 64 < 64"
    "c mod 64 < 64" "(b mod 16) * 4 < 64" "(a mod 4) * 16 < 64"
proof -
  show "a div 4 < 64" using assms by (simp add: div_bound)
  show "(a mod 4) * 16 + b div 16 < 64" by (rule small_sum) (simp_all add: assms div_bound)
  show "(b mod 16) * 4 + c div 64 < 64" by (rule small_sum) (simp_all add: assms div_bound)
  show "c mod 64 < 64" by simp
  have "(b mod 16) * 4 + 0 < 64" by (rule small_sum) simp_all
  then show "(b mod 16) * 4 < 64" by simp
  have "(a mod 4) * 16 + 0 < 64" by (rule small_sum) simp_all
  then show "(a mod 4) * 16 < 64" by simp
qed

lemma regroup:
  fixes a b c :: nat
  assumes "a < 256" "b < 256" "c < 256"
  shows "a div 4 * 4 + ((a mod 4) * 16 + b div 16) div 16 = a"
    "(((a mod 4) * 16 + b div 16) mod 16) * 16 + ((b mod 16) * 4 + c div 64) div 4 = b"
    "(((b mod 16) * 4 + c div 64) mod 4) * 64 + c mod 64 = c"
    "(((a mod 4) * 16 + b div 16) mod 16) * 16 + ((b mod 16) * 4) div 4 = b"
    "a div 4 * 4 + ((a mod 4) * 16) div 16 = a"
proof -
  have b16: "b div 16 < 16" and c64: "c div 64 < 4" using assms by (simp_all add: div_bound)
  show "a div 4 * 4 + ((a mod 4) * 16 + b div 16) div 16 = a"
    by (simp only: split_join [OF b16] div_mult_mod_eq)
  show "(((a mod 4) * 16 + b div 16) mod 16) * 16 + ((b mod 16) * 4 + c div 64) div 4 = b"
    by (simp only: split_join [OF b16] split_join [OF c64] div_mult_mod_eq)
  show "(((b mod 16) * 4 + c div 64) mod 4) * 64 + c mod 64 = c"
    by (simp only: split_join [OF c64] div_mult_mod_eq)
  show "(((a mod 4) * 16 + b div 16) mod 16) * 16 + ((b mod 16) * 4) div 4 = b"
    by (simp only: split_join [OF b16] nonzero_mult_div_cancel_right div_mult_mod_eq)
  show "a div 4 * 4 + ((a mod 4) * 16) div 16 = a"
    by simp
qed

lemma decode_group3:
  fixes a b c :: nat
  assumes "a < 256" "b < 256" "c < 256"
  shows "sextets_to_bytes
           (a div 4 # ((a mod 4) * 16 + b div 16) # ((b mod 16) * 4 + c div 64) # c mod 64 # rest)
         = a # b # c # sextets_to_bytes rest"
  by (simp only: sextets_to_bytes.simps regroup [OF assms] append.simps)

lemma decode_group2:
  fixes a b :: nat
  assumes "a < 256" "b < 256"
  shows "sextets_to_bytes [a div 4, (a mod 4) * 16 + b div 16, (b mod 16) * 4] = [a, b]"
  by (simp only: sextets_to_bytes.simps regroup [OF assms assms(2)])

lemma decode_group1:
  fixes a :: nat
  assumes "a < 256"
  shows "sextets_to_bytes [a div 4, (a mod 4) * 16] = [a]"
  by (simp only: sextets_to_bytes.simps regroup [OF assms assms assms])

lemma filter_cons: "b64_value c = Some v \<Longrightarrow> List.map_filter b64_value (c # cs) = v # List.map_filter b64_value cs"
  by (simp add: List.map_filter_simps)

lemma take_cons: "c \<noteq> CHR ''='' \<Longrightarrow> takeWhile (\<lambda>c. c \<noteq> CHR ''='') (c # cs) = c # takeWhile (\<lambda>c. c \<noteq> CHR ''='') cs"
  by simp

lemma take_padding: "takeWhile (\<lambda>c. c \<noteq> CHR ''='') (CHR ''='' # cs) = []"
  by simp

lemma decode_sextets:
  assumes "\<forall>x \<in> set bs. x < 256"
  shows "sextets_to_bytes
           (List.map_filter b64_value (takeWhile (\<lambda>c. c \<noteq> CHR ''='') (bytes_to_base64 bs))) = bs"
  using assms
proof (induction bs rule: bytes_to_base64.induct)
  case (1 a b c rest)
  then have abc: "a < 256" "b < 256" "c < 256" and rest: "\<forall>x \<in> set rest. x < 256" by simp_all
  note s = sextet_bounds [OF abc]
  have "List.map_filter b64_value (takeWhile (\<lambda>c. c \<noteq> CHR ''='') (bytes_to_base64 (a # b # c # rest)))
      = a div 4 # ((a mod 4) * 16 + b div 16) # ((b mod 16) * 4 + c div 64) # c mod 64 #
          List.map_filter b64_value (takeWhile (\<lambda>c. c \<noteq> CHR ''='') (bytes_to_base64 rest))"
    by (simp only: bytes_to_base64.simps append.simps take_cons filter_cons
        b64_value_char [OF s(1)] b64_value_char [OF s(2)] b64_value_char [OF s(3)] b64_value_char [OF s(4)]
        b64_char_not_padding [OF s(1)] b64_char_not_padding [OF s(2)] b64_char_not_padding [OF s(3)]
        b64_char_not_padding [OF s(4)] not_False_eq_True)
  then show ?case by (simp only: decode_group3 [OF abc] "1.IH" [OF rest])
next
  case (2 a b)
  then have ab: "a < 256" "b < 256" by simp_all
  note s = sextet_bounds [OF ab ab(2)]
  have "List.map_filter b64_value (takeWhile (\<lambda>c. c \<noteq> CHR ''='') (bytes_to_base64 [a, b]))
      = [a div 4, (a mod 4) * 16 + b div 16, (b mod 16) * 4]"
    by (simp only: bytes_to_base64.simps append.simps take_cons take_padding filter_cons
        b64_value_char [OF s(1)] b64_value_char [OF s(2)] b64_value_char [OF s(5)]
        b64_char_not_padding [OF s(1)] b64_char_not_padding [OF s(2)] b64_char_not_padding [OF s(5)]
        List.map_filter_simps(1) option.case not_False_eq_True)
  then show ?case by (simp only: decode_group2 [OF ab])
next
  case (3 a)
  then have a: "a < 256" by simp
  note s = sextet_bounds [OF a a a]
  have "List.map_filter b64_value (takeWhile (\<lambda>c. c \<noteq> CHR ''='') (bytes_to_base64 [a]))
      = [a div 4, (a mod 4) * 16]"
    by (simp only: bytes_to_base64.simps append.simps take_cons take_padding filter_cons
        b64_value_char [OF s(1)] b64_value_char [OF s(6)]
        b64_char_not_padding [OF s(1)] b64_char_not_padding [OF s(6)]
        List.map_filter_simps(1) option.case not_False_eq_True)
  then show ?case by (simp only: decode_group1 [OF a])
next
  case 4
  show ?case by (simp add: List.map_filter_simps)
qed

lemma of_char_less_256: "(of_char c :: nat) < 256"
proof -
  have "(of_char c :: nat) = of_char (char_of (of_char c :: nat))" by simp
  also have "\<dots> = (of_char c :: nat) mod 256" by (simp only: of_char_of)
  finally have "(of_char c :: nat) = of_char c mod 256" .
  moreover have "(of_char c :: nat) mod 256 < 256" by simp
  ultimately show ?thesis by simp
qed

lemma base64_roundtrip: "base64_decode (base64_encode s) = s"
proof -
  have "\<forall>x \<in> set (map of_char s). x < (256::nat)" by (simp add: of_char_less_256)
  from decode_sextets [OF this] show ?thesis
    by (simp add: base64_decode_def base64_encode_def comp_def)
qed

subsection \<open>Evaluating the concrete platform\<close>

lemmas platform_defs = answering_def unreachable_def store_def verifier_def signer_def URL_plain_def
  module_load_def read_credentials_def env1_def env2_def
  trim_ascii_def ascii_space_def parses_example_def quote_def

lemmas request_defs = post_request_def newline_request_def get_request_def anonymous_request_def
  bad_token_request_def

lemmas handler_defs = handler_def forward_def signAndForwardRequest_def verification_def
  getParameter_def with_body_def signV4Options_of_def axios_def validateStatus_def log_error_def
  transformRequest_def stringifySafely_def hasJSONContentType_def
  startsWith_def forbidden_def internal_server_error_def ok_def Let_def

lemma decode_example: "base64_decode ''WzEsMl0='' = ''[1,2]''"
  by code_simp

lemma decode_newline_example: "base64_decode ''WzEsMl0K'' = ''[1,2]'' @ [CHR 0x0A]"
  by code_simp

lemma toString_examples: "toString 5 = ''5''" "toString 42 = ''42''"
  by code_simp+

lemma toString_length_example: "toString (Suc (Suc (Suc (Suc (Suc 0))))) = ''5''"
  by code_simp

lemma toString_length_newline_example: "toString (Suc (Suc (Suc (Suc (Suc (Suc 0)))))) = ''6''"
  by code_simp

subsection \<open>The body the handler signs and hands to axios\<close>

text \<open>Take a request that was dispatched. The request that was signed carries the decoded
  data as its body when the inbound body is tagged \<open>base64\<close> (and its data is not the
  empty string, which line 98 takes for no body), and \<open>Content-Length\<close> is the decimal
  byte length of that string; where \<open>Buffer\<close> decodes the data as the reference decoder
  does, data that is the base64 encoding of \<open>s\<close> gives the body \<open>s\<close>. Without a body,
  nothing is added to the options and axios gets no data. The body axios dispatches is the
  signed body, rewritten when the signed request has a JSON content type.\<close>

lemma signed_body_and_content_length:
  assumes "Records ev = r # rs"
    and "origin_calls (snd (handler P ev p)) = origin_calls p @ [cfg]"
  shows "\<exists>c opts. sign_calls (snd (handler P ev p)) = sign_calls p @ [(c, opts)]
           \<and> sigv4_sign P c opts = Inr (signed cfg)
           \<and> axios_data cfg =
               (case opt_body opts of
                  None \<Rightarrow> None
                | Some s \<Rightarrow>
                    Some (if hasJSONContentType (opt_headers (signed cfg))
                          then stringifySafely P s else s))
           \<and> (\<forall>b. body r = Some b \<and> data b \<noteq> [] \<and> encoding b = ''base64'' \<longrightarrow>
                 opt_body opts = Some (Buffer_base64_utf8 P (data b))
                 \<and> opt_headers opts ''Content-Length'' =
                     Some (toString (length (Buffer_base64_utf8 P (data b))))
                 \<and> (\<forall>s. data b = base64_encode s
                        \<and> Buffer_base64_utf8 P (data b) = base64_decode (data b) \<longrightarrow>
                      opt_body opts = Some s
                      \<and> opt_headers opts ''Content-Length'' = Some (toString (length s))))
           \<and> (\<not> carries_body r \<longrightarrow>
                 opt_body opts = None \<and> dom (opt_headers opts) = {''Content-Type'', ''host''}
                 \<and> axios_data cfg = None)"
proof -
  from handler_dispatches [OF assms(2)] assms(1)
  obtain u ct cts sg where
    sg: "sigv4_sign P (sigv4_credentials p) (with_body P r (signV4Options_of r u ct)) = Inr sg"
    and cfg: "cfg = transformRequest P
                    \<lparr>signed = sg, target_url = href u, timeout_ms = 5000,
                     axios_data = opt_body (with_body P r (signV4Options_of r u ct))\<rparr>"
    and calls: "sign_calls (snd (handler P ev p)) =
               sign_calls p @ [(sigv4_credentials p, with_body P r (signV4Options_of r u ct))]"
    by auto
  let ?opts = "with_body P r (signV4Options_of r u ct)"
  have signed: "signed cfg = sg"
    unfolding cfg by (simp add: transformRequest_def split: option.splits)
  have sent: "axios_data cfg =
      (case opt_body ?opts of
         None \<Rightarrow> None
       | Some s \<Rightarrow> Some (if hasJSONContentType (opt_headers sg) then stringifySafely P s else s))"
    unfolding cfg by (simp add: transformRequest_def split: option.splits)
  have carried: "opt_body ?opts = Some (Buffer_base64_utf8 P (data b))
      \<and> opt_headers ?opts ''Content-Length'' = Some (toString (length (Buffer_base64_utf8 P (data b))))"
    if "body r = Some b" "data b \<noteq> []" "encoding b = ''base64''" for b
    using that by (simp add: with_body_carried)
  have none: "opt_body ?opts = None \<and> dom (opt_headers ?opts) = {''Content-Type'', ''host''}"
    if "\<not> carries_body r"
    using that by (auto simp: with_body_none signV4Options_of_def)
  show ?thesis
    using sg signed sent calls carried none by (auto simp: base64_roundtrip)
qed

lemma signed_body_and_content_length_example:
  "body post_request = Some \<lparr>data = ''WzEsMl0='', encoding = ''base64''\<rparr>
   \<and> ''WzEsMl0='' = base64_encode ''[1,2]''
   \<and> map (\<lambda>call. (opt_body (snd call), opt_headers (snd call) ''Content-Length''))
        (sign_calls (snd (handler (answering 200) \<lparr>Records = [post_request]\<rparr> (module_load env1))))
       = [(Some ''[1,2]'', Some ''5'')]
   \<and> map axios_data
        (origin_calls (snd (handler (answering 200) \<lparr>Records = [post_request]\<rparr> (module_load env1))))
       = [Some ''[1,2]'']"
proof -
  have e: "''WzEsMl0='' = base64_encode ''[1,2]''" by code_simp
  show ?thesis
    by (simp add: e [symmetric] platform_defs request_defs handler_defs decode_example toString_examples
        toString_length_example)
qed

section \<open>The claims\<close>

subsection \<open>A response on every invocation\<close>

text \<open>
  C1. The claim is that every invocation ends with one of the three responses and that no
  exception reaches the caller. The handler reads \<open>headers['content-type'][0].value\<close>
  at line 80, between its two try blocks. A GET without a \<open>content-type\<close> header whose
  token verifies makes that read throw a TypeError, which nothing catches: the two
  parameters were fetched, the token was accepted, and the caller gets the exception.
\<close>

theorem missing_content_type_escapes:
  "handler (answering 200) \<lparr>Records = [get_request]\<rparr> (module_load env1) =
     (Throw (TypeError ''content-type''),
      (module_load env1)\<lparr>ssm_calls := [''/publisher/user-pool-id'', ''/publisher/user-pool-client-id'']\<rparr>)"
  by (simp add: platform_defs request_defs handler_defs)

subsection \<open>The missing or malformed credential\<close>

text \<open>
  C2. When the \<open>authorization\<close> header is absent, has no value, or its first value does not
  start with \<open>Bearer \<close>, the handler returns exactly the 403 response, and the process is
  left as it was: no parameter is fetched, nothing is signed, the origin is not called.
\<close>

theorem missing_or_malformed_credential_forbidden:
  assumes "Records ev = r # rs"
    and "headers r ''authorization'' = None
         \<or> headers r ''authorization'' = Some []
         \<or> (\<exists>v vs. headers r ''authorization'' = Some (v # vs) \<and> \<not> startsWith v ''Bearer '')"
  shows "handler P ev p =
           (Return \<lparr>status = ''403'', statusDescription = ''Forbidden'',
                    response_body = ''Unauthorized''\<rparr>, p)"
  using assms by (auto simp: handler_def forbidden_def)

theorem missing_or_malformed_credential_forbidden_witness:
  "headers anonymous_request ''authorization'' = None
   \<and> handler (answering 200) \<lparr>Records = [anonymous_request]\<rparr> (module_load env1) =
       (Return \<lparr>status = ''403'', statusDescription = ''Forbidden'',
                response_body = ''Unauthorized''\<rparr>, module_load env1)"
  using missing_or_malformed_credential_forbidden
    [of "\<lparr>Records = [anonymous_request]\<rparr>" anonymous_request "[]" "answering 200" "module_load env1"]
  by (simp add: request_defs)

subsection \<open>Verification failures\<close>

text \<open>
  C3. The request has a well-formed Bearer header, and the first try block fails with some
  error \<open>e\<close>: the fetch of the pool id, the fetch of the client id, or the verifier. Then
  the handler returns exactly the 403 response, whatever \<open>e\<close> is; it logs \<open>e\<close> under
  \<open>Token verification failed:\<close>; and it neither signs nor calls the origin.
\<close>

theorem verification_failure_forbidden:
  assumes "Records ev = r # rs"
    and "headers r ''authorization'' = Some (v # vs)"
    and "startsWith v ''Bearer ''"
    and "ssm_send P ''/publisher/user-pool-id'' = Inl e
         \<or> (\<exists>pool. ssm_send P ''/publisher/user-pool-id'' = Inr pool
              \<and> (ssm_send P ''/publisher/user-pool-client-id'' = Inl e
                  \<or> (\<exists>client. ssm_send P ''/publisher/user-pool-client-id'' = Inr client
                       \<and> cognito_verify P pool client (index (split CHR '' '' v) 1) = Inl e)))"
  shows "fst (handler P ev p) =
           Return \<lparr>status = ''403'', statusDescription = ''Forbidden'',
                   response_body = ''Unauthorized''\<rparr>
         \<and> console (snd (handler P ev p)) = console p @ [(''Token verification failed:'', e)]
         \<and> sign_calls (snd (handler P ev p)) = sign_calls p
         \<and> origin_calls (snd (handler P ev p)) = origin_calls p"
proof -
  let ?t = "index (split CHR '' '' v) 1"
  obtain res p1 where v: "verification P ?t p = (res, p1)"
    by (cases "verification P ?t p")
  from assms(4) have "fst (verification P ?t p) = Inl e"
    by (auto simp: verification_result)
  with v have res: "res = Inl e" by simp
  have "sign_calls p1 = sign_calls p" "origin_calls p1 = origin_calls p" "console p1 = console p"
    using verification_frame(1,2,3) [of P ?t p] v by simp_all
  then show ?thesis
    using handler_bearer [OF assms(1,2,3), of P p] v res
    by (simp add: log_error_def forbidden_def)
qed

theorem verification_failure_forbidden_witness:
  "fst (handler (answering 200) \<lparr>Records = [bad_token_request]\<rparr> (module_load env1)) =
     Return \<lparr>status = ''403'', statusDescription = ''Forbidden'', response_body = ''Unauthorized''\<rparr>
   \<and> console (snd (handler (answering 200) \<lparr>Records = [bad_token_request]\<rparr> (module_load env1))) =
       [(''Token verification failed:'', VerificationError ''invalid token'')]
   \<and> origin_calls (snd (handler (answering 200) \<lparr>Records = [bad_token_request]\<rparr> (module_load env1))) = []"
  using verification_failure_forbidden
    [of "\<lparr>Records = [bad_token_request]\<rparr>" bad_token_request "[]" "''Bearer expired''" "[]"
      "answering 200" "VerificationError ''invalid token''" "module_load env1"]
  by (simp add: platform_defs request_defs startsWith_def)

subsection \<open>The origin's answer\<close>

text \<open>
  C4, as claimed: whenever the origin call completes with an HTTP response, of any status,
  the handler returns 200 with the serialized payload. It does not: the origin answers
  the dispatched request with status 404, axios rejects the promise, and the catch block
  of line 87 returns the 500 response.
\<close>

theorem origin_status_404_not_success:
  "length (origin_calls (snd (handler (answering 404) \<lparr>Records = [post_request]\<rparr> (module_load env1)))) = 1
   \<and> origin (answering 404)
        (hd (origin_calls (snd (handler (answering 404) \<lparr>Records = [post_request]\<rparr> (module_load env1)))))
       = Inr \<lparr>resp_status = 404, resp_data = 42\<rparr>
   \<and> fst (handler (answering 404) \<lparr>Records = [post_request]\<rparr> (module_load env1)) =
       Return \<lparr>status = ''500'', statusDescription = ''Internal Server Error'',
               response_body = ''Internal Server Error''\<rparr>"
  by (simp add: platform_defs request_defs handler_defs decode_example toString_examples)

text \<open>
  C4, amended: when the handler has dispatched a request and the exchange ends with a
  response whose status is in the range from 200 to 299, the handler returns 200, OK, and
  the JSON serialization of the payload of that response, the same for every status of the
  range.
\<close>

theorem accepted_origin_response_ok:
  assumes "origin_calls (snd (handler P ev p)) = origin_calls p @ [cfg]"
    and "origin P cfg = Inr resp"
    and "validateStatus (resp_status resp)"
  shows "fst (handler P ev p) =
           Return \<lparr>status = ''200'', statusDescription = ''OK'',
                   response_body = JSON_stringify P (resp_data resp)\<rparr>"
  using handler_dispatches [OF assms(1)] assms(2,3) by (auto simp: ok_def)

theorem accepted_origin_response_ok_witness:
  "validateStatus 200
   \<and> fst (handler (answering 200) \<lparr>Records = [post_request]\<rparr> (module_load env1)) =
       Return \<lparr>status = ''200'', statusDescription = ''OK'', response_body = ''42''\<rparr>"
  using accepted_origin_response_ok
    [of "answering 200" "\<lparr>Records = [post_request]\<rparr>" "module_load env1"
      "hd (origin_calls (snd (handler (answering 200) \<lparr>Records = [post_request]\<rparr> (module_load env1))))"
      "\<lparr>resp_status = 200, resp_data = 42\<rparr>"]
  by (simp add: platform_defs request_defs handler_defs decode_example toString_examples)



subsection \<open>The parameter store\<close>




subsection \<open>The signing credentials\<close>

text \<open>
  C7, as claimed: a signing call uses the credentials that are in the environment at the
  time of the call. It does not: the process is loaded with \<open>env1\<close>, the environment
  changes to \<open>env2\<close>, and the next invocation still signs with the credentials of
  \<open>env1\<close>.
\<close>

theorem rotated_credentials_not_used:
  "map fst (sign_calls (run (answering 200) [SetEnv env2, Invoke \<lparr>Records = [post_request]\<rparr>]
       (module_load env1))) = [read_credentials env1]
   \<and> env (run (answering 200) [SetEnv env2, Invoke \<lparr>Records = [post_request]\<rparr>] (module_load env1)) = env2
   \<and> read_credentials env1 \<noteq> read_credentials env2"
  by (simp add: platform_defs request_defs handler_defs decode_example toString_examples)

text \<open>
  C7, amended: every signing call of a process uses the credentials that were in the
  environment when the module was loaded, whatever invocations and changes of the
  environment came in between.
\<close>

theorem signing_uses_load_time_credentials:
  "\<forall>call \<in> set (sign_calls (run P ss (module_load e))). fst call = read_credentials e"
proof -
  have "\<forall>call \<in> set (sign_calls (module_load e)). fst call = sigv4_credentials (module_load e)"
    by (simp add: module_load_def)
  from run_sign_calls [OF this, of P ss] show ?thesis by (simp add: module_load_def)
qed

theorem signing_uses_load_time_credentials_witness:
  "sign_calls (run (answering 200) [SetEnv env2, Invoke \<lparr>Records = [post_request]\<rparr>] (module_load env1)) \<noteq> []
   \<and> fst (hd (sign_calls (run (answering 200) [SetEnv env2, Invoke \<lparr>Records = [post_request]\<rparr>]
        (module_load env1)))) = read_credentials env1"
proof -
  have "sign_calls (run (answering 200) [SetEnv env2, Invoke \<lparr>Records = [post_request]\<rparr>] (module_load env1)) \<noteq> []"
    by (simp add: platform_defs request_defs handler_defs decode_example toString_examples)
  with signing_uses_load_time_credentials
    [of "answering 200" "[SetEnv env2, Invoke \<lparr>Records = [post_request]\<rparr>]" env1]
  show ?thesis by simp
qed

subsection \<open>The target of the dispatch\<close>

text \<open>
  C8. The claim is that the request goes to the URL made of the origin's domain name, the
  path and the query string. Line 76 puts the query string into the path that is signed,
  but line 111 dispatches to \<open>apiUrl.href\<close>, and \<open>apiUrl\<close> was built at line 71 from the
  domain name and \<open>uri\<close> alone. For the request \<open>/items\<close> with the query string \<open>a=1\<close>
  the signed path is \<open>/items?a=1\<close> and the URL of the dispatch has no query string.
\<close>

theorem dispatched_url_drops_querystring:
  "querystring post_request = ''a=1''
   \<and> map target_url (origin_calls (snd (handler (answering 200) \<lparr>Records = [post_request]\<rparr> (module_load env1))))
       = [''https://abc.lambda-url.eu-central-1.on.aws/items'']
   \<and> map (\<lambda>call. opt_path (snd call)) (sign_calls (snd (handler (answering 200) \<lparr>Records = [post_request]\<rparr> (module_load env1))))
       = [''/items?a=1'']"
  by (simp add: platform_defs request_defs handler_defs decode_example toString_examples)

subsection \<open>The body\<close>

text \<open>
  C9. The claim is that the body of the forwarded request is the decoded data and that its
  content-length header is the byte length of that body. The handler decodes the data,
  computes \<open>Content-Length\<close> from the decoded string and signs it (lines 101-108), and
  hands the same string to axios as \<open>data\<close> (line 113). But it leaves the default request
  transformation of axios in place, and its requests have the content type of the inbound
  request. The inbound request here has the content type \<open>application/json\<close> and its
  body is the array \<open>[1,2]\<close> followed by a line feed: the signed body has 6 bytes and
  \<open>Content-Length\<close> is 6, while the body axios dispatches is the trimmed text of 5 bytes.
\<close>

theorem dispatched_body_differs_from_signed_body:
  "Buffer_base64_utf8 (answering 200) ''WzEsMl0K'' = ''[1,2]'' @ [CHR 0x0A]
   \<and> map (\<lambda>call. (opt_body (snd call), opt_headers (snd call) ''Content-Length''))
        (sign_calls (snd (handler (answering 200) \<lparr>Records = [newline_request]\<rparr> (module_load env1))))
       = [(Some (''[1,2]'' @ [CHR 0x0A]), Some ''6'')]
   \<and> map (\<lambda>cfg. (axios_data cfg, opt_headers (signed cfg) ''Content-Length''))
        (origin_calls (snd (handler (answering 200) \<lparr>Records = [newline_request]\<rparr> (module_load env1))))
       = [(Some ''[1,2]'', Some ''6'')]"
  by (simp add: platform_defs request_defs handler_defs decode_newline_example
      toString_length_newline_example)

subsection \<open>The headers of the forwarded request\<close>

text \<open>
  C10. Take a request the handler has signed. The headers of the signing context are
  exactly the first \<open>content-type\<close> value of the inbound request and the host name of the
  target, and \<open>Content-Length\<close> when and only when the request carries a body. No other
  inbound header reaches the origin: replace the inbound headers by any others with the
  same \<open>content-type\<close> (another \<open>authorization\<close> value, say), and a request that is then
  signed is signed with the same credentials and the same context, and a request that is
  then dispatched is the same request.
\<close>

theorem signing_context_headers_exact:
  assumes "Records ev = r # rs"
    and "sign_calls (snd (handler P ev p)) = sign_calls p @ [(c, opts)]"
  shows "\<exists>u ct cts. URL_new P (''https://'' @ domainName r @ uri r) = Inr u
           \<and> headers r ''content-type'' = Some (ct # cts)
           \<and> (carries_body r \<longrightarrow>
                 (\<exists>bd. opt_body opts = Some bd
                    \<and> opt_headers opts =
                        [''Content-Type'' \<mapsto> ct, ''host'' \<mapsto> hostname u,
                         ''Content-Length'' \<mapsto> toString (length bd)]))
           \<and> (\<not> carries_body r \<longrightarrow>
                 opt_body opts = None
                 \<and> opt_headers opts = [''Content-Type'' \<mapsto> ct, ''host'' \<mapsto> hostname u])
           \<and> (\<forall>hs c' opts'.
                 hs ''content-type'' = headers r ''content-type''
                 \<and> sign_calls (snd (handler P (ev\<lparr>Records := r\<lparr>headers := hs\<rparr> # rs\<rparr>) p)) =
                     sign_calls p @ [(c', opts')]
                 \<longrightarrow> c' = c \<and> opts' = opts)
           \<and> (\<forall>hs cfg cfg'.
                 hs ''content-type'' = headers r ''content-type''
                 \<and> origin_calls (snd (handler P ev p)) = origin_calls p @ [cfg]
                 \<and> origin_calls (snd (handler P (ev\<lparr>Records := r\<lparr>headers := hs\<rparr> # rs\<rparr>) p)) =
                     origin_calls p @ [cfg']
                 \<longrightarrow> cfg' = cfg)"
proof -
  from handler_signs [OF assms]
  obtain u ct cts where u: "URL_new P (''https://'' @ domainName r @ uri r) = Inr u"
    and ct: "headers r ''content-type'' = Some (ct # cts)"
    and c: "c = sigv4_credentials p"
    and opts: "opts = with_body P r (signV4Options_of r u ct)" by blast
  have carried: "\<exists>bd. opt_body opts = Some bd
        \<and> opt_headers opts = [''Content-Type'' \<mapsto> ct, ''host'' \<mapsto> hostname u,
                                ''Content-Length'' \<mapsto> toString (length bd)]"
    if "carries_body r"
  proof -
    from that obtain b where b: "body r = Some b" "data b \<noteq> []"
      by (auto simp: carries_body_def split: option.splits)
    show ?thesis
      unfolding opts by (simp add: with_body_carried [OF b] signV4Options_of_def)
  qed
  have none: "opt_body opts = None
        \<and> opt_headers opts = [''Content-Type'' \<mapsto> ct, ''host'' \<mapsto> hostname u]"
    if "\<not> carries_body r"
    unfolding opts using that by (simp add: with_body_none signV4Options_of_def)
  have frame: "c' = c \<and> opts' = opts"
    if hs: "hs ''content-type'' = headers r ''content-type''"
      and calls: "sign_calls (snd (handler P (ev\<lparr>Records := r\<lparr>headers := hs\<rparr> # rs\<rparr>) p)) =
                     sign_calls p @ [(c', opts')]"
    for hs c' opts'
  proof -
    let ?r = "r\<lparr>headers := hs\<rparr>"
    have "Records (ev\<lparr>Records := ?r # rs\<rparr>) = ?r # rs" by simp
    from handler_signs [OF this calls] u ct hs
    have "c' = sigv4_credentials p" and "opts' = with_body P ?r (signV4Options_of ?r u ct)"
      by auto
    moreover have "with_body P ?r (signV4Options_of ?r u ct) = with_body P r (signV4Options_of r u ct)"
      by (simp add: with_body_headers signV4Options_of_headers)
    ultimately show ?thesis using c opts by simp
  qed
  have dispatch: "cfg' = cfg"
    if hs: "hs ''content-type'' = headers r ''content-type''"
      and one: "origin_calls (snd (handler P ev p)) = origin_calls p @ [cfg]"
      and other: "origin_calls (snd (handler P (ev\<lparr>Records := r\<lparr>headers := hs\<rparr> # rs\<rparr>) p)) =
                     origin_calls p @ [cfg']"
    for hs cfg cfg'
  proof -
    let ?r = "r\<lparr>headers := hs\<rparr>"
    from handler_dispatches [OF one] assms(1) u ct
    obtain sg where sg: "sigv4_sign P (sigv4_credentials p) (with_body P r (signV4Options_of r u ct)) = Inr sg"
      and cfg: "cfg = transformRequest P
                    \<lparr>signed = sg, target_url = href u, timeout_ms = 5000,
                     axios_data = opt_body (with_body P r (signV4Options_of r u ct))\<rparr>"
      by auto
    from handler_dispatches [OF other] u ct hs
    obtain sg' where "sigv4_sign P (sigv4_credentials p) (with_body P ?r (signV4Options_of ?r u ct)) = Inr sg'"
      and "cfg' = transformRequest P
                    \<lparr>signed = sg', target_url = href u, timeout_ms = 5000,
                     axios_data = opt_body (with_body P ?r (signV4Options_of ?r u ct))\<rparr>"
      by auto
    with sg cfg show ?thesis by (simp add: with_body_headers signV4Options_of_headers)
  qed
  from u ct carried none frame dispatch show ?thesis by blast
qed

theorem signing_context_headers_exact_witness:
  "map (\<lambda>call. opt_headers (snd call))
     (sign_calls (snd (handler (answering 200) \<lparr>Records = [post_request]\<rparr> (module_load env1))))
     = [[''Content-Type'' \<mapsto> ''application/json'',
         ''host'' \<mapsto> ''abc.lambda-url.eu-central-1.on.aws'',
         ''Content-Length'' \<mapsto> ''5'']]
   \<and> sign_calls (snd (handler (answering 200) \<lparr>Records = [post_request]\<rparr> (module_load env1)))
       = sign_calls (snd (handler (answering 200)
           \<lparr>Records = [post_request\<lparr>headers := (headers post_request)(''x-forwarded-for'' \<mapsto> [''10.0.0.1''])\<rparr>]\<rparr>
           (module_load env1)))"
  using signing_context_headers_exact
    [of "\<lparr>Records = [post_request]\<rparr>" post_request "[]" "answering 200" "module_load env1"
      "read_credentials env1"
      "snd (hd (sign_calls (snd (handler (answering 200) \<lparr>Records = [post_request]\<rparr> (module_load env1)))))"]
  by (simp add: platform_defs request_defs handler_defs decode_example toString_examples
      toString_length_example)

end
